theory Spec2Isabelle
  imports Complex_Main
begin

section \<open>The input mapping engine of nightfall::input\<close>

text \<open>
  A shallow embedding of \<^verbatim>\<open>src/game/src/input/InputDevices.{h,cpp}\<close> and
  \<^verbatim>\<open>src/game/src/input/InputMapping.{h,cpp}\<close>.

  Conventions of the embedding:
  \<^item> a C++ \<^verbatim>\<open>float\<close> or \<^verbatim>\<open>double\<close> is a \<^typ>\<open>real\<close>: arithmetic is exact, and
    the infinities and rounding are outside the model. So is NaN, except for
    \<^verbatim>\<open>compute_state\<close>, which is given a second time over floats that are a finite number
    or NaN; the records take the number type as a parameter for that;
  \<^item> a \<^verbatim>\<open>std::unordered_map\<close> is a map \<open>string \<rightharpoonup> 'v\<close>; a \<^verbatim>\<open>std::vector\<close> is a list;
  \<^item> a \<^verbatim>\<open>mutable\<close> member written by a \<^verbatim>\<open>const\<close> method is returned updated beside
    the method's result;
  \<^item> a thrown \<^verbatim>\<open>std::runtime_error\<close> is the left injection of a sum, holding the message.
  Names follow the source. Where two structs share a field name, or Isabelle has taken the
  name, the field is renamed: \<^verbatim>\<open>ActionBindingSpec::id\<close> is \<open>action_id\<close>,
  \<^verbatim>\<open>ActionState::value\<close> is \<open>avalue\<close>, \<^verbatim>\<open>BindingDescriptor::interpretation\<close> is
  \<open>b_interpretation\<close>, \<^verbatim>\<open>RuntimeAction::bindings\<close> is \<open>rt_bindings\<close>,
  \<^verbatim>\<open>RawGamepadState::buttons\<close> is \<open>pad_buttons\<close>, \<^verbatim>\<open>InputMapping::_actions\<close> is
  \<open>actions_tbl\<close>, and the locals \<^verbatim>\<open>value\<close> and \<^verbatim>\<open>toggle_scale\<close> of \<^verbatim>\<open>compute_state\<close> are
  \<open>lv_value\<close> and \<open>lv_toggle_scale\<close>.
\<close>

subsection \<open>InputDevices.h\<close>

datatype DeviceKind = Keyboard | Mouse | Gamepad

record ButtonState =
  pressed :: bool
  was_pressed :: bool

definition kEmptyButton :: ButtonState where
  "kEmptyButton = \<lparr>pressed = False, was_pressed = False\<rparr>"

definition just_pressed :: "ButtonState \<Rightarrow> bool" where
  "just_pressed b = (pressed b \<and> \<not> was_pressed b)"

definition just_released :: "ButtonState \<Rightarrow> bool" where
  "just_released b = (\<not> pressed b \<and> was_pressed b)"

record RawKeyboardState =
  keys :: "string \<rightharpoonup> ButtonState"

record 'n RawMouseState =
  buttons :: "string \<rightharpoonup> ButtonState"
  position_x :: "'n"
  position_y :: "'n"
  delta_x :: "'n"
  delta_y :: "'n"
  wheel_delta :: "'n"

record 'n RawGamepadState =
  pad_buttons :: "string \<rightharpoonup> ButtonState"
  axes :: "string \<rightharpoonup> 'n"
  previous_axes :: "string \<rightharpoonup> 'n"

record 'n RawInputState =
  keyboard :: RawKeyboardState
  mouse :: "'n RawMouseState"
  gamepad :: "'n RawGamepadState"
  delta_time :: "'n"

text \<open>\<^verbatim>\<open>RawKeyboardState::get\<close>, \<^verbatim>\<open>RawMouseState::get\<close>, \<^verbatim>\<open>RawGamepadState::get_button\<close>
  and \<^verbatim>\<open>RawGamepadState::axis_value\<close>: a missing entry reads as the neutral value.\<close>

definition keyboard_get :: "RawKeyboardState \<Rightarrow> string \<Rightarrow> ButtonState" where
  "keyboard_get k key = (case keys k key of None \<Rightarrow> kEmptyButton | Some b \<Rightarrow> b)"

definition mouse_get :: "'n RawMouseState \<Rightarrow> string \<Rightarrow> ButtonState" where
  "mouse_get m button = (case buttons m button of None \<Rightarrow> kEmptyButton | Some b \<Rightarrow> b)"

definition get_button :: "'n RawGamepadState \<Rightarrow> string \<Rightarrow> ButtonState" where
  "get_button g button = (case pad_buttons g button of None \<Rightarrow> kEmptyButton | Some b \<Rightarrow> b)"

definition axis_value :: "'n RawGamepadState \<Rightarrow> string \<Rightarrow> 'n \<Rightarrow> 'n" where
  "axis_value g axis default_value = (case axes g axis of None \<Rightarrow> default_value | Some v \<Rightarrow> v)"

subsection \<open>InputMapping.h\<close>

datatype BindingKind = Button | Axis | Pointer

datatype AxisInterpretation = Analog | Digital

record 'n BindingDescriptor =
  device :: DeviceKind
  kind :: BindingKind
  control :: string
  scale :: "'n"
  deadzone :: "'n"
  toggle :: bool
  b_interpretation :: AxisInterpretation

text \<open>The member initialisers of \<^verbatim>\<open>BindingDescriptor\<close>.\<close>

definition default_descriptor :: "real BindingDescriptor" where
  "default_descriptor =
     \<lparr>device = Keyboard, kind = Button, control = [], scale = 1, deadzone = 1 / 10,
      toggle = False, b_interpretation = Analog\<rparr>"

record 'n ActionBindingSpec =
  action_id :: string
  bindings :: "'n BindingDescriptor list"
  smoothing_window :: "'n"
  analog_threshold :: "'n"

definition default_action :: "real ActionBindingSpec" where
  "default_action =
     \<lparr>action_id = [], bindings = [], smoothing_window = 0, analog_threshold = 2 / 10\<rparr>"

record 'n InputMappingSpec =
  actions :: "'n ActionBindingSpec list"

record 'n ActionState =
  avalue :: "'n"
  active :: bool
  triggered :: bool
  released :: bool

text \<open>\<^verbatim>\<open>ActionState{}\<close>, the neutral state.\<close>

definition kEmpty :: "real ActionState" where
  "kEmpty = \<lparr>avalue = 0, active = False, triggered = False, released = False\<rparr>"

record 'n InputState =
  states :: "string \<rightharpoonup> 'n ActionState"

definition set_state :: "real InputState \<Rightarrow> string \<Rightarrow> real ActionState \<Rightarrow> real InputState" where
  "set_state s action st = s\<lparr>states := (states s)(action \<mapsto> st)\<rparr>"

definition has_action :: "real InputState \<Rightarrow> string \<Rightarrow> bool" where
  "has_action s action = (states s action \<noteq> None)"


definition value_or :: "real InputState \<Rightarrow> string \<Rightarrow> real \<Rightarrow> real" where
  "value_or s action fallback = (case states s action of None \<Rightarrow> fallback | Some st \<Rightarrow> avalue st)"

record 'n RuntimeBinding =
  descriptor :: "'n BindingDescriptor"

record 'n RuntimeAction =
  spec :: "'n ActionBindingSpec"
  rt_bindings :: "'n RuntimeBinding list"
  smoothed_value :: "'n"
  previous_value :: "'n"
  previous_active :: bool
  toggle_state :: bool
  toggle_scale :: "'n"

text \<open>A default-constructed \<^verbatim>\<open>RuntimeAction\<close>.\<close>

definition default_runtime :: "real RuntimeAction" where
  "default_runtime =
     \<lparr>spec = default_action, rt_bindings = [], smoothed_value = 0, previous_value = 0,
      previous_active = False, toggle_state = False, toggle_scale = 1\<rparr>"

text \<open>The engine: the private member \<^verbatim>\<open>_actions\<close>.\<close>

record 'n InputMapping =
  actions_tbl :: "string \<rightharpoonup> 'n RuntimeAction"

datatype error = RuntimeError string

subsection \<open>InputMapping.cpp: reading the devices\<close>

definition extract_axis_value :: "real BindingDescriptor \<Rightarrow> real RawInputState \<Rightarrow> real" where
  "extract_axis_value d st =
     (case device d of
        Keyboard \<Rightarrow> (if pressed (keyboard_get (keyboard st) (control d)) then scale d else 0)
      | Mouse \<Rightarrow>
          (if control d = ''x'' \<or> control d = ''delta_x'' then delta_x (mouse st) * scale d
           else if control d = ''y'' \<or> control d = ''delta_y'' then delta_y (mouse st) * scale d
           else if control d = ''wheel'' \<or> control d = ''scroll'' then wheel_delta (mouse st) * scale d
           else if control d = ''position_x'' then position_x (mouse st) * scale d
           else if control d = ''position_y'' then position_y (mouse st) * scale d
           else 0)
      | Gamepad \<Rightarrow> axis_value (gamepad st) (control d) 0 * scale d)"

definition extract_toggle_transition :: "'n BindingDescriptor \<Rightarrow> 'n RawInputState \<Rightarrow> bool" where
  "extract_toggle_transition d st =
     (if \<not> toggle d then False
      else case device d of
             Keyboard \<Rightarrow> just_pressed (keyboard_get (keyboard st) (control d))
           | Mouse \<Rightarrow> just_pressed (mouse_get (mouse st) (control d))
           | Gamepad \<Rightarrow> just_pressed (get_button (gamepad st) (control d)))"

definition extract_button_pressed :: "'n BindingDescriptor \<Rightarrow> 'n RawInputState \<Rightarrow> bool" where
  "extract_button_pressed d st =
     (case device d of
        Keyboard \<Rightarrow> pressed (keyboard_get (keyboard st) (control d))
      | Mouse \<Rightarrow> pressed (mouse_get (mouse st) (control d))
      | Gamepad \<Rightarrow> pressed (get_button (gamepad st) (control d)))"

definition extract_button_triggered :: "'n BindingDescriptor \<Rightarrow> 'n RawInputState \<Rightarrow> bool" where
  "extract_button_triggered d st =
     (case device d of
        Keyboard \<Rightarrow> just_pressed (keyboard_get (keyboard st) (control d))
      | Mouse \<Rightarrow> just_pressed (mouse_get (mouse st) (control d))
      | Gamepad \<Rightarrow> just_pressed (get_button (gamepad st) (control d)))"

definition extract_button_released :: "'n BindingDescriptor \<Rightarrow> 'n RawInputState \<Rightarrow> bool" where
  "extract_button_released d st =
     (case device d of
        Keyboard \<Rightarrow> just_released (keyboard_get (keyboard st) (control d))
      | Mouse \<Rightarrow> just_released (mouse_get (mouse st) (control d))
      | Gamepad \<Rightarrow> just_released (get_button (gamepad st) (control d)))"

subsection \<open>InputMapping::compute_state\<close>

text \<open>\<^verbatim>\<open>std::clamp(v, lo, hi)\<close>.\<close>

definition clamp :: "real \<Rightarrow> real \<Rightarrow> real \<Rightarrow> real" where
  "clamp v lo hi = (if v < lo then lo else if hi < v then hi else v)"

text \<open>The local variables of \<^verbatim>\<open>compute_state\<close> that the loop over the bindings updates.\<close>

record 'n LoopVars =
  lv_value :: "'n"
  any_pressed :: bool
  any_triggered :: bool
  any_released :: bool
  has_toggle :: bool
  toggle_value :: bool
  lv_toggle_scale :: "'n"
  toggle_turned_on :: bool
  toggle_turned_off :: bool

definition loop_init :: "real RuntimeAction \<Rightarrow> real LoopVars" where
  "loop_init action =
     \<lparr>lv_value = 0, any_pressed = False, any_triggered = False, any_released = False,
      has_toggle = False, toggle_value = toggle_state action,
      lv_toggle_scale = toggle_scale action,
      toggle_turned_on = False, toggle_turned_off = False\<rparr>"

text \<open>The branch \<^verbatim>\<open>descriptor.kind == BindingKind::Button\<close> of the loop body.\<close>

definition button_step :: "real RawInputState \<Rightarrow> real BindingDescriptor \<Rightarrow> real LoopVars \<Rightarrow> real LoopVars" where
  "button_step st d v =
     (let is_pressed = extract_button_pressed d st;
          v1 = v\<lparr>any_pressed := any_pressed v \<or> is_pressed,
                 any_triggered := any_triggered v \<or> extract_button_triggered d st,
                 any_released := any_released v \<or> extract_button_released d st\<rparr>
      in if toggle d then
           (let v2 = v1\<lparr>has_toggle := True, lv_toggle_scale := scale d\<rparr>
            in if extract_toggle_transition d st then
                 (let previous_toggle = toggle_value v2;
                      v3 = v2\<lparr>toggle_value := \<not> previous_toggle\<rparr>;
                      v4 = (if \<not> previous_toggle \<and> toggle_value v3
                            then v3\<lparr>toggle_turned_on := True\<rparr> else v3)
                  in if previous_toggle \<and> \<not> toggle_value v4
                     then v4\<lparr>toggle_turned_off := True\<rparr> else v4)
               else v2)
         else v1\<lparr>lv_value := lv_value v1 + (if is_pressed then scale d else 0)\<rparr>)"

text \<open>The \<^verbatim>\<open>else\<close> branch of the loop body: axis and pointer bindings.\<close>

definition axis_step ::
  "real RuntimeAction \<Rightarrow> real RawInputState \<Rightarrow> real BindingDescriptor \<Rightarrow> real LoopVars \<Rightarrow> real LoopVars" where
  "axis_step action st d v =
     (let raw = extract_axis_value d st;
          axis = (if \<bar>raw\<bar> \<le> deadzone d then 0 else raw)
      in if b_interpretation d = Digital then
           (let is_active = \<bar>axis\<bar> > deadzone d;
                v1 = v\<lparr>any_pressed := any_pressed v \<or> is_active\<rparr>;
                v2 = (if is_active \<and> \<bar>previous_value action\<bar> \<le> deadzone d
                      then v1\<lparr>any_triggered := True\<rparr> else v1);
                v3 = (if \<not> is_active \<and> \<bar>previous_value action\<bar> > deadzone d
                      then v2\<lparr>any_released := True\<rparr> else v2)
            in if is_active
               then v3\<lparr>lv_value := lv_value v3 + scale d * (if axis \<ge> 0 then 1 else -1)\<rparr>
               else v3)
         else
           (let v1 = v\<lparr>lv_value := lv_value v + axis\<rparr>
            in if \<bar>axis\<bar> > deadzone d then v1\<lparr>any_pressed := True\<rparr> else v1))"

definition binding_step ::
  "real RuntimeAction \<Rightarrow> real RawInputState \<Rightarrow> real LoopVars \<Rightarrow> real RuntimeBinding \<Rightarrow> real LoopVars" where
  "binding_step action st v rb =
     (if kind (descriptor rb) = Button then button_step st (descriptor rb) v
      else axis_step action st (descriptor rb) v)"

text \<open>The loop \<^verbatim>\<open>for (const auto& runtime_binding : action.bindings)\<close>.\<close>

definition fold_bindings :: "real RuntimeAction \<Rightarrow> real RawInputState \<Rightarrow> real LoopVars" where
  "fold_bindings action st = foldl (binding_step action st) (loop_init action) (rt_bindings action)"

text \<open>The block \<^verbatim>\<open>if (has_toggle) ... else ...\<close> after the loop: what it does to the locals,
  and what it stores in the action.\<close>

definition toggle_locals :: "real LoopVars \<Rightarrow> real LoopVars" where
  "toggle_locals v =
     (if has_toggle v then
        (let v1 = (if toggle_value v
                   then v\<lparr>lv_value := lv_value v + lv_toggle_scale v, any_pressed := True\<rparr>
                   else v);
             v2 = (if toggle_turned_on v1 then v1\<lparr>any_triggered := True\<rparr> else v1)
         in if toggle_turned_off v2 then v2\<lparr>any_released := True\<rparr> else v2)
      else v)"

definition toggle_commit :: "real LoopVars \<Rightarrow> real RuntimeAction \<Rightarrow> real RuntimeAction" where
  "toggle_commit v action =
     (if has_toggle v
      then action\<lparr>toggle_state := toggle_value v, toggle_scale := lv_toggle_scale v\<rparr>
      else action\<lparr>toggle_state := False, toggle_scale := 1\<rparr>)"

text \<open>The locals as they stand at \<^verbatim>\<open>value = std::clamp(value, -1.0f, 1.0f)\<close>: the value
  accumulated for the action, before clamping and smoothing, and the three flags.\<close>

definition accumulated :: "real RuntimeAction \<Rightarrow> real RawInputState \<Rightarrow> real LoopVars" where
  "accumulated action st = toggle_locals (fold_bindings action st)"

text \<open>The smoothing step, from the clamped value to \<^verbatim>\<open>smoothed\<close>.\<close>

definition smooth :: "real RuntimeAction \<Rightarrow> real RawInputState \<Rightarrow> real \<Rightarrow> real" where
  "smooth action st v =
     (if smoothing_window (spec action) > 0 \<and> delta_time st > 0 then
        (let t = clamp (delta_time st / smoothing_window (spec action)) 0 1
         in previous_value action + (v - previous_value action) * t)
      else v)"

definition compute_state :: "real RuntimeAction \<Rightarrow> real RawInputState \<Rightarrow> real ActionState \<times> real RuntimeAction" where
  "compute_state action st =
     (let v = accumulated action st;
          action1 = toggle_commit (fold_bindings action st) action;
          clamped = clamp (lv_value v) (-1) 1;
          smoothed = smooth action st clamped;
          is_active = (any_pressed v \<or> \<bar>smoothed\<bar> > 1 / 1000);
          trig = (if \<not> any_triggered v \<and> analog_threshold (spec action) > 0
                  then \<bar>smoothed\<bar> \<ge> analog_threshold (spec action) \<and>
                       \<bar>previous_value action\<bar> < analog_threshold (spec action)
                  else any_triggered v);
          rel = (if \<not> any_released v \<and> analog_threshold (spec action) > 0
                 then \<bar>smoothed\<bar> \<le> analog_threshold (spec action) * (1 / 2) \<and>
                      \<bar>previous_value action\<bar> > analog_threshold (spec action) * (1 / 2)
                 else any_released v)
      in (\<lparr>avalue = smoothed, active = is_active, triggered = trig, released = rel\<rparr>,
          action1\<lparr>previous_value := smoothed, previous_active := is_active\<rparr>))"

subsection \<open>InputMapping::load, rebind, evaluate, evaluate_action\<close>

text \<open>\<^verbatim>\<open>unordered_map::emplace\<close>: an entry is inserted only if the key is absent.\<close>

definition emplace :: "('k \<rightharpoonup> 'v) \<Rightarrow> 'k \<Rightarrow> 'v \<Rightarrow> ('k \<rightharpoonup> 'v)" where
  "emplace m k v = (if m k = None then m(k \<mapsto> v) else m)"

definition make_runtime :: "real ActionBindingSpec \<Rightarrow> real RuntimeAction" where
  "make_runtime a = default_runtime\<lparr>spec := a, rt_bindings := map (\<lambda>d. \<lparr>descriptor = d\<rparr>) (bindings a)\<rparr>"

definition load :: "real InputMapping \<Rightarrow> real InputMappingSpec \<Rightarrow> real InputMapping" where
  "load m sp =
     m\<lparr>actions_tbl := foldl (\<lambda>t a. emplace t (action_id a) (make_runtime a)) Map.empty (actions sp)\<rparr>"

text \<open>\<^verbatim>\<open>rebind\<close> returns the exception, if any, beside the engine as the call leaves it.\<close>

definition rebind ::
  "real InputMapping \<Rightarrow> string \<Rightarrow> real BindingDescriptor list \<Rightarrow> (error + unit) \<times> real InputMapping" where
  "rebind m action bs =
     (case actions_tbl m action of
        None \<Rightarrow> (Inl (RuntimeError (''unknown action: '' @ action)), m)
      | Some ra \<Rightarrow>
          (Inr (),
           m\<lparr>actions_tbl :=
               (actions_tbl m)(action \<mapsto> ra\<lparr>rt_bindings := map (\<lambda>d. \<lparr>descriptor = d\<rparr>) bs\<rparr>)\<rparr>))"

text \<open>\<^verbatim>\<open>evaluate\<close> visits every entry of \<^verbatim>\<open>_actions\<close> once; the entries are independent,
  so the result and the new table are given entry by entry.\<close>

definition evaluate :: "real InputMapping \<Rightarrow> real RawInputState \<Rightarrow> real InputState \<times> real InputMapping" where
  "evaluate m st =
     (\<lparr>states = (\<lambda>a. map_option (\<lambda>ra. fst (compute_state ra st)) (actions_tbl m a))\<rparr>,
      m\<lparr>actions_tbl := (\<lambda>a. map_option (\<lambda>ra. snd (compute_state ra st)) (actions_tbl m a))\<rparr>)"

definition evaluate_action ::
  "real InputMapping \<Rightarrow> string \<Rightarrow> real RawInputState \<Rightarrow> real ActionState \<times> real InputMapping" where
  "evaluate_action m action st =
     (case actions_tbl m action of
        None \<Rightarrow> (kEmpty, m)
      | Some ra \<Rightarrow>
          (fst (compute_state ra st),
           m\<lparr>actions_tbl := (actions_tbl m)(action \<mapsto> snd (compute_state ra st))\<rparr>))"

subsection \<open>The calls of the engine interface, in sequence\<close>

text \<open>A client drives one \<^verbatim>\<open>InputMapping\<close> object through its four public methods. A call
  returns what the method returns (or the exception it throws) and the engine after it.\<close>

datatype 'n Call =
    CLoad "'n InputMappingSpec"
  | CRebind string "'n BindingDescriptor list"
  | CEvaluate "'n RawInputState"
  | CEvaluateAction string "'n RawInputState"

datatype 'n Reply =
    RVoid
  | RThrown error
  | RInputState "'n InputState"
  | RActionState "'n ActionState"

fun call :: "real InputMapping \<Rightarrow> real Call \<Rightarrow> real Reply \<times> real InputMapping" where
  "call m (CLoad sp) = (RVoid, load m sp)"
| "call m (CRebind action bs) =
     (case rebind m action bs of
        (Inl e, m') \<Rightarrow> (RThrown e, m')
      | (Inr u, m') \<Rightarrow> (RVoid, m'))"
| "call m (CEvaluate st) = (RInputState (fst (evaluate m st)), snd (evaluate m st))"
| "call m (CEvaluateAction action st) =
     (RActionState (fst (evaluate_action m action st)), snd (evaluate_action m action st))"

fun run :: "real InputMapping \<Rightarrow> real Call list \<Rightarrow> real Reply list" where
  "run m [] = []"
| "run m (c # cs) = fst (call m c) # run (snd (call m c)) cs"

subsection \<open>InputMapping.cpp: the JSON document and InputMappingSpec::FromJson\<close>

text \<open>
  \<^verbatim>\<open>JsonValue\<close> is a variant over null, bool, double, string, array and object. An object
  is kept as the list of its members in document order; \<^verbatim>\<open>JsonParser::parse_object\<close>
  fills the \<^verbatim>\<open>unordered_map\<close> with \<^verbatim>\<open>emplace\<close>, so the first member with a given key is the
  one that \<^verbatim>\<open>find\<close> returns.
\<close>

datatype JsonValue =
    JNull
  | JBool bool
  | JNumber real
  | JString string
  | JArray "JsonValue list"
  | JObject "(string \<times> JsonValue) list"

type_synonym JsonArray = "JsonValue list"
type_synonym JsonObject = "(string \<times> JsonValue) list"

definition obj_find :: "JsonObject \<Rightarrow> string \<Rightarrow> JsonValue option" where
  "obj_find object key = map_of object key"

text \<open>\<^verbatim>\<open>as_number\<close> reads a string with \<^verbatim>\<open>std::stod\<close>, a library function taken as the
  parameter \<open>stod\<close> (\<open>None\<close> where it throws).\<close>

definition as_bool :: "JsonValue \<Rightarrow> bool \<Rightarrow> bool" where
  "as_bool v fallback =
     (case v of
        JBool b \<Rightarrow> b
      | JNumber n \<Rightarrow> n \<noteq> 0
      | JString t \<Rightarrow> t = ''true'' \<or> t = ''1''
      | _ \<Rightarrow> fallback)"

definition as_number :: "(string \<Rightarrow> real option) \<Rightarrow> JsonValue \<Rightarrow> real \<Rightarrow> real" where
  "as_number stod v fallback =
     (case v of
        JNumber n \<Rightarrow> n
      | JBool b \<Rightarrow> (if b then 1 else 0)
      | JString t \<Rightarrow> (case stod t of Some x \<Rightarrow> x | None \<Rightarrow> fallback)
      | _ \<Rightarrow> fallback)"

definition as_string :: "JsonValue \<Rightarrow> error + string" where
  "as_string v = (case v of JString t \<Rightarrow> Inr t | _ \<Rightarrow> Inl (RuntimeError ''expected JSON string''))"

definition as_array :: "JsonValue \<Rightarrow> error + JsonArray" where
  "as_array v = (case v of JArray xs \<Rightarrow> Inr xs | _ \<Rightarrow> Inl (RuntimeError ''expected JSON array''))"

definition as_object :: "JsonValue \<Rightarrow> error + JsonObject" where
  "as_object v = (case v of JObject ms \<Rightarrow> Inr ms | _ \<Rightarrow> Inl (RuntimeError ''expected JSON object''))"

definition parse_binding_kind :: "string \<Rightarrow> BindingKind" where
  "parse_binding_kind text =
     (if text = ''axis'' then Axis else if text = ''pointer'' then Pointer else Button)"

definition parse_interpretation :: "string \<Rightarrow> AxisInterpretation" where
  "parse_interpretation text = (if text = ''digital'' \<or> text = ''binary'' then Digital else Analog)"

definition parse_device_kind :: "string \<Rightarrow> DeviceKind" where
  "parse_device_kind text =
     (if text = ''mouse'' then Mouse
      else if text = ''gamepad'' \<or> text = ''controller'' then Gamepad
      else Keyboard)"

text \<open>A name between single quotes, as the error messages write it.\<close>

definition quoted :: "string \<Rightarrow> string" where
  "quoted s = CHR 0x27 # s @ [CHR 0x27]"

text \<open>A range-for loop whose body may throw: the first exception ends it.\<close>

fun collect :: "('a \<Rightarrow> error + 'b) \<Rightarrow> 'a list \<Rightarrow> error + 'b list" where
  "collect f [] = Inr []"
| "collect f (x # xs) =
     (case f x of
        Inl e \<Rightarrow> Inl e
      | Inr y \<Rightarrow> (case collect f xs of Inl e \<Rightarrow> Inl e | Inr ys \<Rightarrow> Inr (y # ys)))"

text \<open>The body of the inner loop of \<^verbatim>\<open>FromJson\<close>: one entry of a \<^verbatim>\<open>bindings\<close> array.\<close>

definition parse_binding :: "(string \<Rightarrow> real option) \<Rightarrow> JsonValue \<Rightarrow> error + real BindingDescriptor" where
  "parse_binding stod binding_value =
     (case as_object binding_value of
        Inl e \<Rightarrow> Inl e
      | Inr binding_object \<Rightarrow>
     (case (case obj_find binding_object ''device'' of
              None \<Rightarrow> Inr default_descriptor
            | Some dv \<Rightarrow>
                (case as_string dv of
                   Inl e \<Rightarrow> Inl e
                 | Inr t \<Rightarrow> Inr (default_descriptor\<lparr>device := parse_device_kind t\<rparr>))) of
        Inl e \<Rightarrow> Inl e
      | Inr d1 \<Rightarrow>
     (case (case obj_find binding_object ''kind'' of
              None \<Rightarrow> Inr d1
            | Some kv \<Rightarrow>
                (case as_string kv of
                   Inl e \<Rightarrow> Inl e
                 | Inr t \<Rightarrow> Inr (d1\<lparr>kind := parse_binding_kind t\<rparr>))) of
        Inl e \<Rightarrow> Inl e
      | Inr d2 \<Rightarrow>
     (case (case obj_find binding_object ''control'' of
              None \<Rightarrow> Inl (RuntimeError (''binding missing '' @ quoted ''control''))
            | Some cv \<Rightarrow>
                (case as_string cv of
                   Inl e \<Rightarrow> Inl e
                 | Inr t \<Rightarrow> Inr (d2\<lparr>control := t\<rparr>))) of
        Inl e \<Rightarrow> Inl e
      | Inr d3 \<Rightarrow>
     (let d4 = (case obj_find binding_object ''scale'' of
                  None \<Rightarrow> d3 | Some sv \<Rightarrow> d3\<lparr>scale := as_number stod sv 1\<rparr>);
          d5 = (case obj_find binding_object ''deadzone'' of
                  None \<Rightarrow> d4 | Some zv \<Rightarrow> d4\<lparr>deadzone := as_number stod zv (1 / 10)\<rparr>);
          d6 = (case obj_find binding_object ''toggle'' of
                  None \<Rightarrow> d5 | Some tv \<Rightarrow> d5\<lparr>toggle := as_bool tv False\<rparr>)
      in case obj_find binding_object ''interpretation'' of
           None \<Rightarrow> Inr d6
         | Some iv \<Rightarrow>
             (case as_string iv of
                Inl e \<Rightarrow> Inl e
              | Inr t \<Rightarrow> Inr (d6\<lparr>b_interpretation := parse_interpretation t\<rparr>)))))))"

text \<open>The body of the outer loop of \<^verbatim>\<open>FromJson\<close>: one entry of the \<^verbatim>\<open>actions\<close> array.\<close>

definition parse_action :: "(string \<Rightarrow> real option) \<Rightarrow> JsonValue \<Rightarrow> error + real ActionBindingSpec" where
  "parse_action stod v =
     (case as_object v of
        Inl e \<Rightarrow> Inl e
      | Inr action_object \<Rightarrow>
     (case (case obj_find action_object ''id'' of
              Some iv \<Rightarrow> as_string iv
            | None \<Rightarrow>
                (case obj_find action_object ''action'' of
                   Some nv \<Rightarrow> as_string nv
                 | None \<Rightarrow> Inl (RuntimeError (''action entry missing '' @ quoted ''id'')))) of
        Inl e \<Rightarrow> Inl e
      | Inr ident \<Rightarrow>
     (let a1 = default_action\<lparr>action_id := ident\<rparr>;
          a2 = (case obj_find action_object ''smoothing'' of
                  None \<Rightarrow> a1 | Some sv \<Rightarrow> a1\<lparr>smoothing_window := as_number stod sv 0\<rparr>);
          a3 = (case obj_find action_object ''analog_threshold'' of
                  None \<Rightarrow> a2 | Some tv \<Rightarrow> a2\<lparr>analog_threshold := as_number stod tv (2 / 10)\<rparr>)
      in case obj_find action_object ''bindings'' of
           None \<Rightarrow> Inl (RuntimeError (''action entry missing '' @ quoted ''bindings''))
         | Some bv \<Rightarrow>
             (case as_array bv of
                Inl e \<Rightarrow> Inl e
              | Inr binding_array \<Rightarrow>
                  (case collect (parse_binding stod) binding_array of
                     Inl e \<Rightarrow> Inl e
                   | Inr bs \<Rightarrow> Inr (a3\<lparr>bindings := bs\<rparr>))))))"


subsection \<open>InputMapping::compute_state where NaN matters\<close>
































subsection \<open>The smoothing rule in the words of the specification\<close>

text \<open>Section 4.2, step 5: if \<open>smoothing_window > 0\<close> and \<open>delta_time > 0\<close>, let
  \<open>t = clamp(delta_time / smoothing_window, 0, 1)\<close> and
  \<open>smoothed = previous_value + (clamped_value - previous_value) * t\<close>; otherwise
  \<open>smoothed = clamped_value\<close>.\<close>

definition spec_smoothed :: "real \<Rightarrow> real \<Rightarrow> real \<Rightarrow> real \<Rightarrow> real" where
  "spec_smoothed previous clamped_value dt window =
     (if window > 0 \<and> dt > 0
      then previous + (clamped_value - previous) * max 0 (min 1 (dt / window))
      else clamped_value)"

subsection \<open>Properties of the runtime memory used in the proofs\<close>


subsection \<open>Concrete tables and device snapshots\<close>

text \<open>A default-constructed engine, and snapshots in which only the keyboard or only the
  gamepad axes carry data.\<close>

definition empty_mapping :: "real InputMapping" where
  "empty_mapping = \<lparr>actions_tbl = Map.empty\<rparr>"

definition idle_mouse :: "real RawMouseState" where
  "idle_mouse = \<lparr>buttons = Map.empty, position_x = 0, position_y = 0, delta_x = 0, delta_y = 0,
                   wheel_delta = 0\<rparr>"

definition idle_gamepad :: "real RawGamepadState" where
  "idle_gamepad = \<lparr>pad_buttons = Map.empty, axes = Map.empty, previous_axes = Map.empty\<rparr>"

definition keys_frame :: "(string \<times> ButtonState) list \<Rightarrow> real \<Rightarrow> real RawInputState" where
  "keys_frame ks dt =
     \<lparr>keyboard = \<lparr>keys = map_of ks\<rparr>, mouse = idle_mouse, gamepad = idle_gamepad, delta_time = dt\<rparr>"

definition axes_frame :: "(string \<times> real) list \<Rightarrow> real \<Rightarrow> real RawInputState" where
  "axes_frame xs dt =
     \<lparr>keyboard = \<lparr>keys = Map.empty\<rparr>, mouse = idle_mouse,
      gamepad = idle_gamepad\<lparr>axes := map_of xs\<rparr>, delta_time = dt\<rparr>"

definition just_down :: ButtonState where
  "just_down = \<lparr>pressed = True, was_pressed = False\<rparr>"

definition held :: ButtonState where
  "held = \<lparr>pressed = True, was_pressed = True\<rparr>"

definition just_up :: ButtonState where
  "just_up = \<lparr>pressed = False, was_pressed = True\<rparr>"

definition key_binding :: "string \<Rightarrow> real \<Rightarrow> real BindingDescriptor" where
  "key_binding c s = default_descriptor\<lparr>control := c, scale := s\<rparr>"

definition toggle_binding :: "string \<Rightarrow> real BindingDescriptor" where
  "toggle_binding c = default_descriptor\<lparr>control := c, toggle := True\<rparr>"

definition pad_axis_binding :: "string \<Rightarrow> real \<Rightarrow> AxisInterpretation \<Rightarrow> real BindingDescriptor" where
  "pad_axis_binding c dz i =
     default_descriptor\<lparr>device := Gamepad, kind := Axis, control := c, deadzone := dz,
                        b_interpretation := i\<rparr>"

definition one_action :: "string \<Rightarrow> real BindingDescriptor list \<Rightarrow> real \<Rightarrow> real \<Rightarrow> real InputMappingSpec" where
  "one_action ident bs window threshold =
     \<lparr>actions = [\<lparr>action_id = ident, bindings = bs, smoothing_window = window,
                   analog_threshold = threshold\<rparr>]\<rparr>"


text \<open>A smoothed action on one key, and a frame of half a second in which the key is held.\<close>

definition move_table :: "real InputMapping" where
  "move_table = load empty_mapping (one_action ''move'' [key_binding ''KeyD'' 1] 1 (2 / 10))"

definition move_frame :: "real \<Rightarrow> real RawInputState" where
  "move_frame dt = keys_frame [(''KeyD'', held)] dt"

text \<open>An action on two keys, and a frame in which one key goes down while the other goes up.\<close>

definition dash_table :: "real InputMapping" where
  "dash_table =
     load empty_mapping (one_action ''dash'' [key_binding ''KeyA'' 1, key_binding ''KeyD'' 1] 0 (2 / 10))"

definition swap_frame :: "real RawInputState" where
  "swap_frame = keys_frame [(''KeyA'', just_down), (''KeyD'', just_up)] (1 / 60)"

text \<open>An action on one analog gamepad axis, as \<^verbatim>\<open>load\<close> leaves it, and a frame with the stick
  pushed half way.\<close>

definition aim_action :: "real RuntimeAction" where
  "aim_action =
     make_runtime \<lparr>action_id = ''aim'', bindings = [pad_axis_binding ''right_x'' (1 / 4) Analog],
                   smoothing_window = 0, analog_threshold = 2 / 10\<rparr>"

definition aim_frame :: "real RawInputState" where
  "aim_frame = axes_frame [(''right_x'', 1 / 2)] (1 / 60)"


text \<open>The same action with a given memory: what \<^verbatim>\<open>previous_value\<close> and
  \<^verbatim>\<open>previous_active\<close> hold after some frames.\<close>

definition move_action :: "real \<Rightarrow> bool \<Rightarrow> real RuntimeAction" where
  "move_action prev act =
     (make_runtime \<lparr>action_id = ''move'', bindings = [key_binding ''KeyD'' 1],
                    smoothing_window = 1, analog_threshold = 2 / 10\<rparr>)
       \<lparr>previous_value := prev, previous_active := act\<rparr>"

text \<open>An action on a single toggle key with scale 1 and no smoothing; a frame is given by the
  state of that key. \<open>lock_run\<close> presses the key, lets it go and presses it again.\<close>

definition lock_table :: "real InputMapping" where
  "lock_table = load empty_mapping (one_action ''lock'' [toggle_binding ''KeyT''] 0 (2 / 10))"

definition lock_frame :: "ButtonState \<Rightarrow> real RawInputState" where
  "lock_frame b = keys_frame [(''KeyT'', b)] (1 / 60)"

definition lock_action :: "bool \<Rightarrow> real \<Rightarrow> bool \<Rightarrow> real RuntimeAction" where
  "lock_action on prev act =
     (make_runtime \<lparr>action_id = ''lock'', bindings = [toggle_binding ''KeyT''],
                    smoothing_window = 0, analog_threshold = 2 / 10\<rparr>)
       \<lparr>previous_value := prev, previous_active := act, toggle_state := on\<rparr>"

definition lock_run :: "real Reply list" where
  "lock_run = run lock_table [CEvaluateAction ''lock'' (lock_frame just_down),
                              CEvaluateAction ''lock'' (lock_frame just_up),
                              CEvaluateAction ''lock'' (lock_frame just_down)]"

text \<open>An action on one digital gamepad axis with deadzone 0.25 and scale 1, and a frame in
  which the axis reads 0.3.\<close>

definition stick_action :: "real RuntimeAction" where
  "stick_action =
     make_runtime \<lparr>action_id = ''strafe'',
                   bindings = [pad_axis_binding ''left_x'' (1 / 4) Digital],
                   smoothing_window = 0, analog_threshold = 2 / 10\<rparr>"

definition stick_frame :: "real RawInputState" where
  "stick_frame = axes_frame [(''left_x'', 3 / 10)] (1 / 60)"

text \<open>A specification that names the action \<open>dash\<close> twice, with different bindings.\<close>

definition twice_spec :: "real InputMappingSpec" where
  "twice_spec =
     \<lparr>actions = [\<lparr>action_id = ''dash'', bindings = [key_binding ''Space'' 1],
                   smoothing_window = 0, analog_threshold = 2 / 10\<rparr>,
                 \<lparr>action_id = ''dash'', bindings = [key_binding ''KeyQ'' 1],
                   smoothing_window = 1, analog_threshold = 2 / 10\<rparr>]\<rparr>"

subsection \<open>Documents that lack a required field\<close>

text \<open>A member that is absent or holds a string; a binding entry without
  \<^verbatim>\<open>control\<close>; an action entry with neither \<^verbatim>\<open>id\<close> nor its alias
  \<^verbatim>\<open>action\<close>, or without \<^verbatim>\<open>bindings\<close>, or with a binding that lacks \<^verbatim>\<open>control\<close>.\<close>

definition absent_or_string :: "JsonValue option \<Rightarrow> bool" where
  "absent_or_string m = (case m of None \<Rightarrow> True | Some (JString t) \<Rightarrow> True | Some _ \<Rightarrow> False)"



text \<open>The messages of the exceptions that \<^verbatim>\<open>FromJson\<close> throws on a parsed document: those of
  \<^verbatim>\<open>as_string\<close>, \<^verbatim>\<open>as_array\<close> and \<^verbatim>\<open>as_object\<close>, and its own four.\<close>

definition ingestion_messages :: "string list" where
  "ingestion_messages =
     [''expected JSON string'', ''expected JSON array'', ''expected JSON object'',
      ''input mapping JSON missing '' @ quoted ''actions'' @ '' array'',
      ''action entry missing '' @ quoted ''id'',
      ''action entry missing '' @ quoted ''bindings'',
      ''binding missing '' @ quoted ''control'']"

definition descriptive :: "error \<Rightarrow> bool" where
  "descriptive e = (case e of RuntimeError msg \<Rightarrow> msg \<in> set ingestion_messages)"





section \<open>Auxiliary facts\<close>

lemmas fixture_defs = empty_mapping_def idle_mouse_def idle_gamepad_def keys_frame_def axes_frame_def
  just_down_def held_def just_up_def key_binding_def toggle_binding_def pad_axis_binding_def
  one_action_def default_descriptor_def default_action_def default_runtime_def make_runtime_def

lemmas extract_defs = extract_axis_value_def extract_toggle_transition_def
  extract_button_pressed_def extract_button_triggered_def extract_button_released_def
  keyboard_get_def mouse_get_def get_button_def axis_value_def just_pressed_def just_released_def
  kEmptyButton_def

lemmas step_defs = compute_state_def accumulated_def toggle_locals_def toggle_commit_def
  fold_bindings_def binding_step_def button_step_def axis_step_def loop_init_def smooth_def
  clamp_def

subsection \<open>The table that load builds\<close>

lemma foldl_emplace_lookup:
  "foldl (\<lambda>t a. emplace t (action_id a) (make_runtime a)) t0 xs k =
     (case t0 k of
        Some v \<Rightarrow> Some v
      | None \<Rightarrow> map_option make_runtime (List.find (\<lambda>a. action_id a = k) xs))"
proof (induction xs arbitrary: t0)
  case Nil
  then show ?case by (simp split: option.splits)
next
  case (Cons x xs)
  show ?case
    unfolding foldl_Cons Cons.IH
    by (auto simp: emplace_def split: option.splits)
qed

lemma load_lookup:
  "actions_tbl (load m sp) k =
     map_option make_runtime (List.find (\<lambda>a. action_id a = k) (actions sp))"
  by (simp add: load_def foldl_emplace_lookup)


lemma load_one:
  "actions_tbl (load m (one_action i bs w th)) i =
     Some (make_runtime \<lparr>action_id = i, bindings = bs, smoothing_window = w,
                          analog_threshold = th\<rparr>)"
  by (simp add: load_lookup one_action_def)

subsection \<open>Clamping and smoothing stay in the unit range\<close>





lemma compute_state_value:
  "avalue (fst (compute_state a st)) = smooth a st (clamp (lv_value (accumulated a st)) (- 1) 1)"
  by (simp add: compute_state_def Let_def)



subsection \<open>Every call keeps the remembered values in the unit range\<close>










subsection \<open>Two frames of the action move\<close>

lemma move_entry: "actions_tbl move_table ''move'' = Some (move_action 0 False)"
  by (simp add: move_table_def load_one)
    (simp add: move_action_def fixture_defs)

lemma move_first:
  "compute_state (move_action 0 False) (move_frame (1 / 2)) =
     (\<lparr>avalue = 1 / 2, active = True, triggered = True, released = False\<rparr>,
      move_action (1 / 2) True)"
  by (simp add: move_action_def move_frame_def fixture_defs step_defs extract_defs Let_def)

lemma move_second:
  "compute_state (move_action (1 / 2) True) (move_frame (1 / 2)) =
     (\<lparr>avalue = 3 / 4, active = True, triggered = False, released = False\<rparr>,
      move_action (3 / 4) True)"
  by (simp add: move_action_def move_frame_def fixture_defs step_defs extract_defs Let_def)

lemma move_snap:
  "avalue (fst (compute_state (move_action 0 False) (move_frame 2))) = 1"
  by (simp add: move_action_def move_frame_def fixture_defs step_defs extract_defs Let_def)

lemma move_target:
  "clamp (lv_value (accumulated (move_action p act) (move_frame dt))) (- 1) 1 = 1"
  by (simp add: move_action_def move_frame_def fixture_defs step_defs extract_defs Let_def)

section \<open>The claims\<close>

subsection \<open>C1: trigger and release in one frame\<close>

text \<open>
  C1 states that no frame emits an \<open>ActionState\<close> with \<open>triggered\<close> and \<open>released\<close> both
  true. The loop ORs the press and release edges of every button binding into two separate
  flags, so an action on two keys, one going down while the other goes up, emits both.
\<close>

theorem both_edges_counterexample:
  "triggered (fst (evaluate_action dash_table ''dash'' swap_frame)) \<and>
   released (fst (evaluate_action dash_table ''dash'' swap_frame))"
  by (simp add: evaluate_action_def dash_table_def load_one)
    (simp add: swap_frame_def fixture_defs step_defs extract_defs Let_def)

text \<open>
  Auxiliary facts: bindings that are analog axes or pointers raise no edge flag and no
  toggle; without edge flags, the two threshold conditions cannot hold together.
\<close>

lemma analog_step_no_edges:
  assumes "kind (descriptor rb) \<noteq> Button" "b_interpretation (descriptor rb) = Analog"
  shows "any_triggered (binding_step a st v rb) = any_triggered v \<and>
         any_released (binding_step a st v rb) = any_released v \<and>
         has_toggle (binding_step a st v rb) = has_toggle v"
  using assms by (simp add: binding_step_def axis_step_def Let_def)

lemma analog_fold_no_edges:
  assumes "\<forall>rb \<in> set rbs. kind (descriptor rb) \<noteq> Button \<and> b_interpretation (descriptor rb) = Analog"
  shows "any_triggered (foldl (binding_step a st) v rbs) = any_triggered v \<and>
         any_released (foldl (binding_step a st) v rbs) = any_released v \<and>
         has_toggle (foldl (binding_step a st) v rbs) = has_toggle v"
  using assms
proof (induction rbs arbitrary: v)
  case Nil
  show ?case by simp
next
  case (Cons rb rbs)
  from Cons.prems have h: "kind (descriptor rb) \<noteq> Button" "b_interpretation (descriptor rb) = Analog"
    and t: "\<forall>rb \<in> set rbs. kind (descriptor rb) \<noteq> Button \<and> b_interpretation (descriptor rb) = Analog"
    by simp_all
  from Cons.IH [OF t, of "binding_step a st v rb"] analog_step_no_edges [OF h, of a st v]
  show ?case by simp
qed

lemma analog_action_no_edges:
  assumes "\<forall>rb \<in> set (rt_bindings a). kind (descriptor rb) \<noteq> Button \<and> b_interpretation (descriptor rb) = Analog"
  shows "\<not> any_triggered (accumulated a st) \<and> \<not> any_released (accumulated a st)"
  using analog_fold_no_edges [OF assms, of a st "loop_init a"]
  by (simp add: accumulated_def fold_bindings_def toggle_locals_def loop_init_def)

lemma threshold_flags_exclusive:
  assumes "\<not> any_triggered (accumulated a st)" "\<not> any_released (accumulated a st)"
  shows "\<not> (triggered (fst (compute_state a st)) \<and> released (fst (compute_state a st)))"
  using assms by (auto simp: compute_state_def Let_def split: if_splits)

text \<open>
  C1 as amended: in a frame where no binding contributed an edge (the flags \<open>any_triggered\<close>
  and \<open>any_released\<close> are both false when the value is clamped), \<open>triggered\<close> and
  \<open>released\<close> are never both true, for every action, runtime memory and snapshot: the two
  conditions on \<open>analog_threshold\<close> exclude each other. In particular this holds in every
  frame of an action whose bindings are all analog axes or pointers.
\<close>

theorem edge_flags_exclusive:
  "(\<not> any_triggered (accumulated a st) \<and> \<not> any_released (accumulated a st) \<longrightarrow>
      \<not> (triggered (fst (compute_state a st)) \<and> released (fst (compute_state a st)))) \<and>
   ((\<forall>rb \<in> set (rt_bindings a).
        kind (descriptor rb) \<noteq> Button \<and> b_interpretation (descriptor rb) = Analog) \<longrightarrow>
      \<not> (triggered (fst (compute_state a st)) \<and> released (fst (compute_state a st))))"
  using threshold_flags_exclusive [of a st] analog_action_no_edges [of a st] by blast

theorem edge_flags_exclusive_witness:
  "\<not> any_triggered (accumulated aim_action aim_frame) \<and>
   \<not> any_released (accumulated aim_action aim_frame) \<and>
   rt_bindings aim_action = [\<lparr>descriptor = pad_axis_binding ''right_x'' (1 / 4) Analog\<rparr>] \<and>
   triggered (fst (compute_state aim_action aim_frame)) \<and>
   \<not> released (fst (compute_state aim_action aim_frame))"
proof -
  have r: "rt_bindings aim_action = [\<lparr>descriptor = pad_axis_binding ''right_x'' (1 / 4) Analog\<rparr>]"
    by (simp add: aim_action_def make_runtime_def)
  have h: "\<not> any_triggered (accumulated aim_action aim_frame) \<and>
           \<not> any_released (accumulated aim_action aim_frame)"
    by (simp add: aim_action_def aim_frame_def fixture_defs step_defs extract_defs Let_def)
  have b: "\<forall>rb \<in> set (rt_bindings aim_action).
      kind (descriptor rb) \<noteq> Button \<and> b_interpretation (descriptor rb) = Analog"
    by (simp add: aim_action_def fixture_defs)
  have t: "triggered (fst (compute_state aim_action aim_frame))"
    by (simp add: aim_action_def aim_frame_def fixture_defs step_defs extract_defs Let_def)
  have n: "\<not> (triggered (fst (compute_state aim_action aim_frame)) \<and>
              released (fst (compute_state aim_action aim_frame)))"
    using edge_flags_exclusive [of aim_action aim_frame, THEN conjunct1] h by (rule mp)
  have n': "\<not> (triggered (fst (compute_state aim_action aim_frame)) \<and>
               released (fst (compute_state aim_action aim_frame)))"
    using edge_flags_exclusive [of aim_action aim_frame, THEN conjunct2] b by (rule mp)
  from h r t n n' show ?thesis by blast
qed

subsection \<open>C2: the emitted value stays in the unit range\<close>





















subsection \<open>C3: a single toggle binding\<close>

text \<open>
  Auxiliary evaluations: the three frames of \<open>lock_run\<close>, each from the memory the frame
  before left.
\<close>

lemma lock_table_entry: "actions_tbl lock_table ''lock'' = Some (lock_action False 0 False)"
  by (simp add: lock_table_def load_one)
    (simp add: lock_action_def fixture_defs)

lemma lock_step_down:
  "compute_state (lock_action False 0 False) (lock_frame just_down) =
     (\<lparr>avalue = 1, active = True, triggered = True, released = False\<rparr>,
      lock_action True 1 True)"
  by (simp add: lock_action_def lock_frame_def fixture_defs step_defs extract_defs Let_def)

lemma lock_step_up:
  "compute_state (lock_action True 1 True) (lock_frame just_up) =
     (\<lparr>avalue = 1, active = True, triggered = False, released = True\<rparr>,
      lock_action True 1 True)"
  by (simp add: lock_action_def lock_frame_def fixture_defs step_defs extract_defs Let_def)

lemma lock_step_down_again:
  "compute_state (lock_action True 1 True) (lock_frame just_down) =
     (\<lparr>avalue = 0, active = True, triggered = True, released = True\<rparr>,
      lock_action False 0 True)"
  by (simp add: lock_action_def lock_frame_def fixture_defs step_defs extract_defs Let_def)

text \<open>
  C3 expects, for a single toggle binding, \<open>triggered\<close> only on the frame of the first flip
  and \<open>released\<close> only on the frame of the second. The code run on press, release, press:
  the toggle state goes on and then off and the value is 1, 1, 0 as C3 says, but the frame
  of the second flip has \<open>triggered\<close> true beside \<open>released\<close>, and the frame in which the key
  is let go has \<open>released\<close> true while the toggle stays on.
\<close>

theorem toggle_second_flip_also_triggers:
  "lock_run =
     [RActionState \<lparr>avalue = 1, active = True, triggered = True, released = False\<rparr>,
      RActionState \<lparr>avalue = 1, active = True, triggered = False, released = True\<rparr>,
      RActionState \<lparr>avalue = 0, active = True, triggered = True, released = True\<rparr>] \<and>
   toggle_state (snd (compute_state (lock_action False 0 False) (lock_frame just_down))) \<and>
   toggle_state (snd (compute_state (lock_action True 1 True) (lock_frame just_up))) \<and>
   \<not> toggle_state (snd (compute_state (lock_action True 1 True) (lock_frame just_down)))"
  by (simp add: lock_run_def evaluate_action_def lock_table_entry lock_step_down lock_step_up
      lock_step_down_again)
    (simp add: lock_action_def)

subsection \<open>C4: a digital axis saturates to the scale\<close>

lemma single_axis_accumulated:
  assumes "rt_bindings a = [\<lparr>descriptor = d\<rparr>]" "kind d \<noteq> Button"
  shows "accumulated a st = axis_step a st d (loop_init a)"
  using assms
  by (simp add: accumulated_def fold_bindings_def binding_step_def toggle_locals_def
      axis_step_def loop_init_def Let_def)

text \<open>
  C4: a digital axis binding whose reading is beyond its deadzone adds to the accumulated
  value its scale with the sign of the reading, and adds nothing when the reading is within
  a non-negative deadzone. With deadzone 0.25, scale 1 and a reading of 0.3 it adds exactly
  1, so an action with this binding alone accumulates exactly 1 (and stays 1 when
  clamped). The reading is \<open>extract_axis_value\<close>, the device value times the scale.
\<close>

theorem digital_axis_saturates:
  assumes "kind d = Axis" "b_interpretation d = Digital"
  shows "(deadzone d = 1 / 4 \<and> scale d = 1 \<and> extract_axis_value d st = 3 / 10 \<longrightarrow>
            lv_value (binding_step a st v \<lparr>descriptor = d\<rparr>) = lv_value v + 1) \<and>
         (rt_bindings a = [\<lparr>descriptor = d\<rparr>] \<and>
          deadzone d = 1 / 4 \<and> scale d = 1 \<and> extract_axis_value d st = 3 / 10 \<longrightarrow>
            lv_value (accumulated a st) = 1 \<and>
            clamp (lv_value (accumulated a st)) (- 1) 1 = 1) \<and>
         (\<bar>extract_axis_value d st\<bar> > deadzone d \<longrightarrow>
            lv_value (binding_step a st v \<lparr>descriptor = d\<rparr>) =
              lv_value v + scale d * (if extract_axis_value d st \<ge> 0 then 1 else - 1)) \<and>
         (\<bar>extract_axis_value d st\<bar> \<le> deadzone d \<and> 0 \<le> deadzone d \<longrightarrow>
            lv_value (binding_step a st v \<lparr>descriptor = d\<rparr>) = lv_value v)"
proof -
  have k: "kind d \<noteq> Button" using assms(1) by simp
  have step: "binding_step a st v \<lparr>descriptor = d\<rparr> = axis_step a st d v"
    using k by (simp add: binding_step_def)
  have one: "rt_bindings a = [\<lparr>descriptor = d\<rparr>] \<and>
          deadzone d = 1 / 4 \<and> scale d = 1 \<and> extract_axis_value d st = 3 / 10 \<longrightarrow>
            lv_value (accumulated a st) = 1 \<and>
            clamp (lv_value (accumulated a st)) (- 1) 1 = 1"
  proof
    assume h: "rt_bindings a = [\<lparr>descriptor = d\<rparr>] \<and>
          deadzone d = 1 / 4 \<and> scale d = 1 \<and> extract_axis_value d st = 3 / 10"
    then have b: "rt_bindings a = [\<lparr>descriptor = d\<rparr>]" by simp
    show "lv_value (accumulated a st) = 1 \<and> clamp (lv_value (accumulated a st)) (- 1) 1 = 1"
      unfolding single_axis_accumulated [OF b k]
      using h assms(2) by (simp add: axis_step_def loop_init_def clamp_def Let_def)
  qed
  have rest: "(deadzone d = 1 / 4 \<and> scale d = 1 \<and> extract_axis_value d st = 3 / 10 \<longrightarrow>
            lv_value (axis_step a st d v) = lv_value v + 1) \<and>
         (\<bar>extract_axis_value d st\<bar> > deadzone d \<longrightarrow>
            lv_value (axis_step a st d v) =
              lv_value v + scale d * (if extract_axis_value d st \<ge> 0 then 1 else - 1)) \<and>
         (\<bar>extract_axis_value d st\<bar> \<le> deadzone d \<and> 0 \<le> deadzone d \<longrightarrow>
            lv_value (axis_step a st d v) = lv_value v)"
    using assms(2) by (simp add: axis_step_def Let_def)
  from one rest show ?thesis unfolding step by blast
qed

theorem digital_axis_saturates_witness:
  "rt_bindings stick_action = [\<lparr>descriptor = pad_axis_binding ''left_x'' (1 / 4) Digital\<rparr>] \<and>
   axis_value (gamepad stick_frame) ''left_x'' 0 = 3 / 10 \<and>
   extract_axis_value (pad_axis_binding ''left_x'' (1 / 4) Digital) stick_frame = 3 / 10 \<and>
   lv_value (accumulated stick_action stick_frame) = 1 \<and>
   avalue (fst (compute_state stick_action stick_frame)) = 1"
proof -
  let ?d = "pad_axis_binding ''left_x'' (1 / 4) Digital"
  have b: "rt_bindings stick_action = [\<lparr>descriptor = ?d\<rparr>]"
    by (simp add: stick_action_def make_runtime_def)
  have k: "kind ?d = Axis" and i: "b_interpretation ?d = Digital"
    and z: "deadzone ?d = 1 / 4" and s: "scale ?d = 1"
    by (simp_all add: pad_axis_binding_def default_descriptor_def)
  have r: "axis_value (gamepad stick_frame) ''left_x'' 0 = 3 / 10"
    by (simp add: stick_frame_def axes_frame_def idle_gamepad_def axis_value_def)
  have x: "extract_axis_value ?d stick_frame = 3 / 10"
    by (simp add: extract_axis_value_def r pad_axis_binding_def default_descriptor_def)
  have v: "avalue (fst (compute_state stick_action stick_frame)) = 1"
    by (simp add: stick_action_def stick_frame_def fixture_defs step_defs extract_defs Let_def)
  from digital_axis_saturates [OF k i, of stick_frame stick_action] z s x b r v
  show ?thesis by simp
qed

subsection \<open>C5: smoothing is a clamped linear interpolation\<close>

lemma clamp_01_max_min: "clamp t 0 1 = max 0 (min 1 t)"
  by (simp add: clamp_def max_def min_def)

text \<open>
  C5: the value that \<open>compute_state\<close> emits is the smoothing rule of the specification
  applied to the remembered value, the clamped value, the frame time and the smoothing
  window. With window 1, target 1 and remembered value 0, a frame of 0.5 gives 0.5 and a
  frame of 2 gives 1.
\<close>

theorem smoothing_is_clamped_lerp:
  "avalue (fst (compute_state a st)) =
     spec_smoothed (previous_value a) (clamp (lv_value (accumulated a st)) (- 1) 1)
       (delta_time st) (smoothing_window (spec a)) \<and>
   smoothing_window (spec (move_action 0 False)) = 1 \<and>
   previous_value (move_action 0 False) = 0 \<and>
   clamp (lv_value (accumulated (move_action 0 False) (move_frame (1 / 2)))) (- 1) 1 = 1 \<and>
   avalue (fst (compute_state (move_action 0 False) (move_frame (1 / 2)))) = 1 / 2 \<and>
   clamp (lv_value (accumulated (move_action 0 False) (move_frame 2))) (- 1) 1 = 1 \<and>
   avalue (fst (compute_state (move_action 0 False) (move_frame 2))) = 1"
proof -
  have g: "avalue (fst (compute_state a st)) =
     spec_smoothed (previous_value a) (clamp (lv_value (accumulated a st)) (- 1) 1)
       (delta_time st) (smoothing_window (spec a))"
    by (simp add: compute_state_value smooth_def spec_smoothed_def clamp_01_max_min Let_def)
  have w: "smoothing_window (spec (move_action 0 False)) = 1"
    and p: "previous_value (move_action 0 False) = 0"
    by (simp_all add: move_action_def make_runtime_def)
  from g w p move_target move_first move_snap show ?thesis by simp
qed

subsection \<open>C6: rebinding an unknown action\<close>

text \<open>
  C6: \<^verbatim>\<open>rebind\<close> on an id that is not in the table throws the error
  \<open>unknown action: <id>\<close> and leaves the engine as it was; on an id that is in the table it
  does not throw.
\<close>

theorem rebind_unknown_is_reported:
  "(actions_tbl m action = None \<longrightarrow>
      rebind m action bs = (Inl (RuntimeError (''unknown action: '' @ action)), m)) \<and>
   (actions_tbl m action \<noteq> None \<longrightarrow> fst (rebind m action bs) = Inr ())"
  by (auto simp: rebind_def split: option.splits)

theorem rebind_unknown_is_reported_witness:
  "actions_tbl move_table ''jump'' = None \<and>
   rebind move_table ''jump'' [key_binding ''Space'' 1] =
     (Inl (RuntimeError ''unknown action: jump''), move_table) \<and>
   actions_tbl move_table ''move'' \<noteq> None \<and>
   fst (rebind move_table ''move'' [key_binding ''Space'' 1]) = Inr ()"
proof -
  have n: "actions_tbl move_table ''jump'' = None"
    by (simp add: move_table_def load_lookup one_action_def)
  have k: "actions_tbl move_table ''move'' \<noteq> None"
    by (simp add: move_entry)
  from rebind_unknown_is_reported [of move_table "''jump''" "[key_binding ''Space'' 1]"]
    rebind_unknown_is_reported [of move_table "''move''" "[key_binding ''Space'' 1]"] n k
  show ?thesis by simp
qed

subsection \<open>C7: ingestion of the binding table\<close>









lemma parse_action_messages:
  "(obj_find ao ''id'' = None \<and> obj_find ao ''action'' = None \<longrightarrow>
      parse_action stod (JObject ao) = Inl (RuntimeError (''action entry missing '' @ quoted ''id''))) \<and>
   (obj_find ao ''id'' = Some (JString i) \<and> obj_find ao ''bindings'' = None \<longrightarrow>
      parse_action stod (JObject ao) = Inl (RuntimeError (''action entry missing '' @ quoted ''bindings'')))"
  by (simp add: parse_action_def as_object_def as_string_def Let_def split: option.splits)

lemma absent_or_string_cases:
  "absent_or_string m \<Longrightarrow> m = None \<or> (\<exists>t. m = Some (JString t))"
  by (auto simp: absent_or_string_def split: option.splits JsonValue.splits)

lemma parse_binding_message:
  assumes "absent_or_string (obj_find bo ''device'')" "absent_or_string (obj_find bo ''kind'')"
    "obj_find bo ''control'' = None"
  shows "parse_binding stod (JObject bo) =
           Inl (RuntimeError (''binding missing '' @ quoted ''control''))"
proof -
  have *: "dv = None \<or> (\<exists>t. dv = Some (JString t)) \<Longrightarrow>
           kv = None \<or> (\<exists>u. kv = Some (JString u)) \<Longrightarrow>
           obj_find bo ''device'' = dv \<Longrightarrow> obj_find bo ''kind'' = kv \<Longrightarrow> ?thesis" for dv kv
    by (auto simp: parse_binding_def as_object_def as_string_def assms(3))
  show ?thesis
    by (rule * [OF absent_or_string_cases [OF assms(1)] absent_or_string_cases [OF assms(2)]])
      simp_all
qed


lemma accessor_errors:
  "as_string v = Inl e \<Longrightarrow> e = RuntimeError ''expected JSON string''"
  "as_array v = Inl e \<Longrightarrow> e = RuntimeError ''expected JSON array''"
  "as_object v = Inl e \<Longrightarrow> e = RuntimeError ''expected JSON object''"
  by (cases v; simp add: as_string_def as_array_def as_object_def)+

lemma descriptive_accessors:
  "as_string v = Inl e \<Longrightarrow> descriptive e"
  "as_array v = Inl e \<Longrightarrow> descriptive e"
  "as_object v = Inl e \<Longrightarrow> descriptive e"
  by (auto dest!: accessor_errors simp: descriptive_def ingestion_messages_def)









subsection \<open>C8: a held toggle button keeps the action active\<close>










subsection \<open>C9: evaluate_action advances the runtime memory\<close>

text \<open>
  C9: \<^verbatim>\<open>evaluate_action\<close> on a known action stores the action as \<open>compute_state\<close> leaves
  it: \<open>previous_value\<close> and \<open>previous_active\<close> are the value and the flag just returned,
  and the toggle state is the one the loop computed. For the action \<open>move\<close>, with smoothing
  window 1, two calls with the same snapshot return 1/2 and then 3/4.
\<close>

theorem evaluate_action_advances_memory:
  "(actions_tbl m action = Some ra \<longrightarrow>
      actions_tbl (snd (evaluate_action m action st)) action = Some (snd (compute_state ra st)) \<and>
      previous_value (snd (compute_state ra st)) = avalue (fst (evaluate_action m action st)) \<and>
      previous_active (snd (compute_state ra st)) = active (fst (evaluate_action m action st)) \<and>
      toggle_state (snd (compute_state ra st)) =
        (has_toggle (fold_bindings ra st) \<and> toggle_value (fold_bindings ra st))) \<and>
   0 < smoothing_window (spec (move_action 0 False)) \<and>
   actions_tbl move_table ''move'' = Some (move_action 0 False) \<and>
   avalue (fst (evaluate_action move_table ''move'' (move_frame (1 / 2)))) = 1 / 2 \<and>
   avalue (fst (evaluate_action (snd (evaluate_action move_table ''move'' (move_frame (1 / 2))))
                  ''move'' (move_frame (1 / 2)))) = 3 / 4"
proof -
  have general: "actions_tbl m action = Some ra \<longrightarrow>
      actions_tbl (snd (evaluate_action m action st)) action = Some (snd (compute_state ra st)) \<and>
      previous_value (snd (compute_state ra st)) = avalue (fst (evaluate_action m action st)) \<and>
      previous_active (snd (compute_state ra st)) = active (fst (evaluate_action m action st)) \<and>
      toggle_state (snd (compute_state ra st)) =
        (has_toggle (fold_bindings ra st) \<and> toggle_value (fold_bindings ra st))"
    by (simp add: evaluate_action_def compute_state_def toggle_commit_def Let_def)
  have w: "0 < smoothing_window (spec (move_action 0 False))"
    by (simp add: move_action_def make_runtime_def)
  have v1: "avalue (fst (evaluate_action move_table ''move'' (move_frame (1 / 2)))) = 1 / 2"
    by (simp add: evaluate_action_def move_entry move_first)
  have v2: "avalue (fst (evaluate_action (snd (evaluate_action move_table ''move'' (move_frame (1 / 2))))
                  ''move'' (move_frame (1 / 2)))) = 3 / 4"
    by (simp add: evaluate_action_def move_entry move_first move_second)
  from general w move_entry v1 v2 show ?thesis by blast
qed

theorem evaluate_action_advances_memory_witness:
  "actions_tbl move_table ''move'' = Some (move_action 0 False) \<and>
   actions_tbl (snd (evaluate_action move_table ''move'' (move_frame (1 / 2)))) ''move'' =
     Some (move_action (1 / 2) True) \<and>
   previous_value (move_action (1 / 2) True) = 1 / 2"
proof -
  have p: "previous_value (move_action (1 / 2) True) = 1 / 2"
    by (simp add: move_action_def)
  from evaluate_action_advances_memory [of move_table "''move''" "move_action 0 False" "move_frame (1 / 2)"]
    move_entry p
  show ?thesis by (simp add: move_first)
qed


subsection \<open>C10: load and duplicate ids\<close>

text \<open>
  C10: \<^verbatim>\<open>load\<close> has no failing path; the entry it stores for an id holds, as its
  \<open>spec\<close>, the first action of the specification with that id, and that action's bindings
  as its \<open>rt_bindings\<close>, with the memory at its initial values; the ids of the table are
  the ids of the specification. Loading \<open>twice_spec\<close> gives one entry, with the binding
  of the first of the two actions.
\<close>

theorem load_keeps_first_duplicate:
  "actions_tbl (load m sp) k =
     map_option
       (\<lambda>a. \<lparr>spec = a, rt_bindings = map (\<lambda>d. \<lparr>descriptor = d\<rparr>) (bindings a),
             smoothed_value = 0, previous_value = 0, previous_active = False,
             toggle_state = False, toggle_scale = 1\<rparr>)
       (List.find (\<lambda>a. action_id a = k) (actions sp)) \<and>
   dom (actions_tbl (load m sp)) = action_id ` set (actions sp) \<and>
   actions_tbl (load m twice_spec) ''dash'' =
     Some \<lparr>spec = \<lparr>action_id = ''dash'', bindings = [key_binding ''Space'' 1],
                    smoothing_window = 0, analog_threshold = 2 / 10\<rparr>,
           rt_bindings = [\<lparr>descriptor = key_binding ''Space'' 1\<rparr>],
           smoothed_value = 0, previous_value = 0, previous_active = False,
           toggle_state = False, toggle_scale = 1\<rparr> \<and>
   dom (actions_tbl (load m twice_spec)) = {''dash''}"
proof -
  have g: "actions_tbl (load m' sp') k' =
     map_option
       (\<lambda>a. \<lparr>spec = a, rt_bindings = map (\<lambda>d. \<lparr>descriptor = d\<rparr>) (bindings a),
             smoothed_value = 0, previous_value = 0, previous_active = False,
             toggle_state = False, toggle_scale = 1\<rparr>)
       (List.find (\<lambda>a. action_id a = k') (actions sp'))" for m' sp' k'
    by (cases "List.find (\<lambda>a. action_id a = k') (actions sp')")
      (simp_all add: load_lookup make_runtime_def default_runtime_def)
  have d: "dom (actions_tbl (load m' sp')) = action_id ` set (actions sp')" for m' sp'
    by (auto simp: load_lookup dom_def find_None_iff image_iff)
  have e: "actions_tbl (load m twice_spec) ''dash'' =
     Some \<lparr>spec = \<lparr>action_id = ''dash'', bindings = [key_binding ''Space'' 1],
                    smoothing_window = 0, analog_threshold = 2 / 10\<rparr>,
           rt_bindings = [\<lparr>descriptor = key_binding ''Space'' 1\<rparr>],
           smoothed_value = 0, previous_value = 0, previous_active = False,
           toggle_state = False, toggle_scale = 1\<rparr>"
    unfolding g by (simp add: twice_spec_def)
  have f: "dom (actions_tbl (load m twice_spec)) = {''dash''}"
    unfolding d by (simp add: twice_spec_def)
  from g [of m sp k] d [of m sp] e f show ?thesis by (intro conjI)
qed

end
